theory Spec2Isabelle
  imports Complex_Main "HOL-Library.Word"
begin

section \<open>Floating-point numbers\<close>

text \<open>
  A GLSL \<^verbatim>\<open>float\<close> and a C++ \<^verbatim>\<open>float\<close> are taken to be IEEE 754 binary32 numbers, a C++
  \<^verbatim>\<open>double\<close> a binary64 number, with rounding to nearest, ties to even. A value is a finite
  real number, an infinity or a NaN; the sign of zero is not modelled (no operation used below
  tells the two zeros apart). A finite value of the model need not be representable: every
  operation rounds its result, and the theorems below hold of all values.
\<close>

datatype ieee = Finite real | PlusInf | MinusInf | NaN

text \<open>Rounding of a real number to an integer, to nearest, ties to even.\<close>

definition rne :: "real \<Rightarrow> int" where
  "rne x =
     (let f = \<lfloor>x\<rfloor>; d = x - of_int f
      in if d < 1/2 then f else if 1/2 < d then f + 1 else if even f then f else f + 1)"

text \<open>
  Rounding of a real number to the format with \<open>p\<close> bits of precision and exponents from
  \<open>emin\<close> to \<open>emax\<close>: the number is rounded to a multiple of the unit in the last place of
  its binade (of the lowest binade for a subnormal number), and becomes an infinity when the
  rounded magnitude reaches \<open>2 ^ (emax + 1)\<close>.
\<close>

definition round_to :: "nat \<Rightarrow> int \<Rightarrow> int \<Rightarrow> real \<Rightarrow> ieee" where
  "round_to p emin emax x =
     (if x = 0 then Finite 0
      else
        (let e = max \<lfloor>log 2 \<bar>x\<bar>\<rfloor> emin - (int p - 1);
             y = of_int (rne (x / 2 powi e)) * 2 powi e
         in if 2 powi (emax + 1) \<le> \<bar>y\<bar> then (if 0 < x then PlusInf else MinusInf)
            else Finite y))"

definition round32 :: "real \<Rightarrow> ieee" where
  "round32 = round_to 24 (- 126) 127"

definition round64 :: "real \<Rightarrow> ieee" where
  "round64 = round_to 53 (- 1022) 1023"

text \<open>The comparison \<open><\<close>: false when an operand is a NaN.\<close>

fun ieee_less :: "ieee \<Rightarrow> ieee \<Rightarrow> bool" where
  "ieee_less (Finite a) (Finite b) = (a < b)"
| "ieee_less (Finite a) PlusInf = True"
| "ieee_less MinusInf (Finite b) = True"
| "ieee_less MinusInf PlusInf = True"
| "ieee_less a b = False"

text \<open>Addition and subtraction, with the rounding \<open>rnd\<close> of the format of the result.\<close>

fun ieee_add :: "(real \<Rightarrow> ieee) \<Rightarrow> ieee \<Rightarrow> ieee \<Rightarrow> ieee" where
  "ieee_add rnd (Finite a) (Finite b) = rnd (a + b)"
| "ieee_add rnd NaN b = NaN"
| "ieee_add rnd a NaN = NaN"
| "ieee_add rnd PlusInf MinusInf = NaN"
| "ieee_add rnd MinusInf PlusInf = NaN"
| "ieee_add rnd PlusInf b = PlusInf"
| "ieee_add rnd MinusInf b = MinusInf"
| "ieee_add rnd a PlusInf = PlusInf"
| "ieee_add rnd a MinusInf = MinusInf"

fun ieee_neg :: "ieee \<Rightarrow> ieee" where
  "ieee_neg (Finite a) = Finite (- a)"
| "ieee_neg PlusInf = MinusInf"
| "ieee_neg MinusInf = PlusInf"
| "ieee_neg NaN = NaN"

definition ieee_sub :: "(real \<Rightarrow> ieee) \<Rightarrow> ieee \<Rightarrow> ieee \<Rightarrow> ieee" where
  "ieee_sub rnd a b = ieee_add rnd a (ieee_neg b)"

section \<open>Edge identification shaders (hdSt/shaders/edgeId.glslfx)\<close>

text \<open>
  The GLSL mixins of \<^verbatim>\<open>edgeId.glslfx\<close> are pure functions of the interpolated
  geometry-shader outputs \<^verbatim>\<open>gsBaryCoord\<close> and \<^verbatim>\<open>gsRect\<close>, which the model takes as
  arguments. A GLSL \<^verbatim>\<open>float\<close> is a binary32 number: a decimal literal is rounded to the
  nearest one, and so is the result of a subtraction, also in a constant expression.
  A GLSL \<^verbatim>\<open>int\<close> is an \<^typ>\<open>int\<close>; only the constants -1 .. 3 are ever produced.
\<close>

datatype vec2 = Vec2 (vec2_x: ieee) (vec2_y: ieee)

datatype vec3 = Vec3 (vec3_x: ieee) (vec3_y: ieee) (vec3_z: ieee)

datatype bvec2 = BVec2 bool bool

datatype bvec3 = BVec3 bool bool bool

text \<open>The GLSL built-ins used by the mixins: the constructors \<^verbatim>\<open>vec2(s)\<close> and
  \<^verbatim>\<open>vec3(s)\<close> of a scalar, the swizzle \<^verbatim>\<open>.yz\<close>, the component-wise comparisons
  \<^verbatim>\<open>lessThan\<close> and \<^verbatim>\<open>greaterThan\<close> (\<open>a > b\<close> is \<open>b < a\<close>), and \<^verbatim>\<open>any\<close>.\<close>

definition vec2_splat :: "ieee \<Rightarrow> vec2" where
  "vec2_splat s = Vec2 s s"

definition vec3_splat :: "ieee \<Rightarrow> vec3" where
  "vec3_splat s = Vec3 s s s"

definition swizzle_yz :: "vec3 \<Rightarrow> vec2" where
  "swizzle_yz v = Vec2 (vec3_y v) (vec3_z v)"

definition lessThan2 :: "vec2 \<Rightarrow> vec2 \<Rightarrow> bvec2" where
  "lessThan2 a b = BVec2 (ieee_less (vec2_x a) (vec2_x b)) (ieee_less (vec2_y a) (vec2_y b))"

definition greaterThan2 :: "vec2 \<Rightarrow> vec2 \<Rightarrow> bvec2" where
  "greaterThan2 a b = BVec2 (ieee_less (vec2_x b) (vec2_x a)) (ieee_less (vec2_y b) (vec2_y a))"

definition lessThan3 :: "vec3 \<Rightarrow> vec3 \<Rightarrow> bvec3" where
  "lessThan3 a b =
     BVec3 (ieee_less (vec3_x a) (vec3_x b)) (ieee_less (vec3_y a) (vec3_y b))
       (ieee_less (vec3_z a) (vec3_z b))"

fun any2 :: "bvec2 \<Rightarrow> bool" where
  "any2 (BVec2 a b) = (a \<or> b)"

fun any3 :: "bvec3 \<Rightarrow> bool" where
  "any3 (BVec3 a b c) = (a \<or> b \<or> c)"

subsection \<open>EdgeId.Geometry.Bary\<close>

text \<open>\<^verbatim>\<open>vec3 barys[3]\<close> with its three assignments. Indexing the array outside
  \<open>0 .. 2\<close> is undefined in GLSL; the model returns \<open>None\<close> there.\<close>

definition barys :: "vec3 list" where
  "barys =
     [Vec3 (Finite 1) (Finite 0) (Finite 0),
      Vec3 (Finite 0) (Finite 1) (Finite 0),
      Vec3 (Finite 0) (Finite 0) (Finite 1)]"

definition GetBaryCoord :: "int \<Rightarrow> vec2 option" where
  "GetBaryCoord index =
     (if 0 \<le> index \<and> index < int (length barys)
      then Some (swizzle_yz (barys ! nat index))
      else None)"

subsection \<open>EdgeId.Fragment.BaryFallback\<close>

text \<open>The fallback mixin declares no input. Its two functions are given the fragment's
  (unused) inputs as an argument of any type, so that "for every fragment" can be said.\<close>

definition GetPrimitiveEdgeId_BaryFallback :: "'frag \<Rightarrow> int" where
  "GetPrimitiveEdgeId_BaryFallback frag = -1"

definition IsFragmentOnEdge_BaryFallback :: "'frag \<Rightarrow> bool" where
  "IsFragmentOnEdge_BaryFallback frag = False"

subsection \<open>EdgeId.Fragment.Bary\<close>

definition ExpandBaryCoord :: "vec2 \<Rightarrow> vec3" where
  "ExpandBaryCoord bc =
     Vec3 (ieee_sub round32 (ieee_sub round32 (Finite 1) (vec2_x bc)) (vec2_y bc))
       (vec2_x bc) (vec2_y bc)"

definition pickRadius :: ieee where
  "pickRadius = round32 0.02"

text \<open>The local \<^verbatim>\<open>edgeId\<close> starts at -1 and is overwritten by the first branch of the
  \<^verbatim>\<open>if / else if\<close> chain whose test holds.\<close>

definition GetPrimitiveEdgeId_Bary :: "vec2 \<Rightarrow> int" where
  "GetPrimitiveEdgeId_Bary gsBaryCoord =
     (let baryCoord = ExpandBaryCoord gsBaryCoord;
          edgeId = - 1
      in if ieee_less (vec3_z baryCoord) pickRadius then 0
         else if ieee_less (vec3_x baryCoord) pickRadius then 1
         else if ieee_less (vec3_y baryCoord) pickRadius then 2
         else edgeId)"

definition IsFragmentOnEdge_Bary :: "vec2 \<Rightarrow> bool" where
  "IsFragmentOnEdge_Bary gsBaryCoord =
     (let bc = ExpandBaryCoord gsBaryCoord
      in any3 (lessThan3 bc (vec3_splat pickRadius)))"

subsection \<open>EdgeId.Fragment.Rect\<close>

definition GetPrimitiveEdgeId_Rect :: "vec2 \<Rightarrow> int" where
  "GetPrimitiveEdgeId_Rect gsRect =
     (let edgeId = - 1;
          delLow = pickRadius;
          delHigh = ieee_sub round32 (Finite 1) delLow;
          uv = gsRect
      in if ieee_less (vec2_y uv) delLow then 0
         else if ieee_less delHigh (vec2_x uv) then 1
         else if ieee_less delHigh (vec2_y uv) then 2
         else if ieee_less (vec2_x uv) delLow then 3
         else edgeId)"

definition IsFragmentOnEdge_Rect :: "vec2 \<Rightarrow> bool" where
  "IsFragmentOnEdge_Rect gsRect =
     (let uv = gsRect;
          e0_e3 = any2 (lessThan2 uv (vec2_splat pickRadius));
          e1_e2 = any2 (greaterThan2 uv (vec2_splat (ieee_sub round32 (Finite 1) pickRadius)))
      in e0_e3 \<or> e1_e2)"

section \<open>Skeleton translation into Maya (usdMaya/translatorSkel.cpp)\<close>

text \<open>
  The translator drives the Maya API, which is not part of the sources. The model keeps the
  translator's own control flow and arithmetic and takes what Maya answers (the status of
  each call, the objects it hands back) as parameters. Reading or writing an array outside
  its bounds is undefined behaviour in C++; the model returns \<open>Inl OutOfRange\<close> there.
\<close>

subsection \<open>Machine integers and arrays\<close>

datatype error = OutOfRange

text \<open>\<^verbatim>\<open>static_cast<unsigned int>\<close> of an \<^verbatim>\<open>int\<close>, the wrap-around of
  \<^verbatim>\<open>unsigned int\<close> arithmetic, and the conversion of an \<^verbatim>\<open>unsigned int\<close> to
  \<^verbatim>\<open>int\<close>.\<close>

definition uint32 :: "int \<Rightarrow> nat" where
  "uint32 i = nat (i mod 2 ^ 32)"

definition wrap32 :: "nat \<Rightarrow> nat" where
  "wrap32 n = n mod 2 ^ 32"

definition int32 :: "nat \<Rightarrow> int" where
  "int32 n = (if n mod 2 ^ 32 < 2 ^ 31 then int (n mod 2 ^ 32) else int (n mod 2 ^ 32) - 2 ^ 32)"

definition array_read :: "'a list \<Rightarrow> nat \<Rightarrow> error + 'a" where
  "array_read xs i = (if i < length xs then Inr (xs ! i) else Inl OutOfRange)"

subsection \<open>\<^verbatim>\<open>_SetVaryingJointInfluences\<close>\<close>

text \<open>
  The inner loop \<^verbatim>\<open>for(int c = 0; c < numInfluencesPerPoint; ++c)\<close> for the point
  \<open>pt\<close>. The elements of the \<^verbatim>\<open>VtIntArray indices\<close> are 32-bit signed integers; the
  subscript \<^verbatim>\<open>pt*numInfluencesPerPoint+c\<close> and the subscript \<^verbatim>\<open>pt*numJoints + jointIdx\<close>
  are computed in \<^verbatim>\<open>unsigned int\<close>. The weights are binary32 numbers; \<^verbatim>\<open>+=\<close> adds one
  to an element of the \<^verbatim>\<open>MDoubleArray\<close> in binary64.
\<close>

function influences_of_point ::
  "32 word list \<Rightarrow> ieee list \<Rightarrow> int \<Rightarrow> nat \<Rightarrow> nat \<Rightarrow> int \<Rightarrow> ieee list \<Rightarrow> error + ieee list" where
  "influences_of_point indices weights numInfluencesPerPoint numJoints pt c vertOrderedWeights =
     (if c < numInfluencesPerPoint then
        (case array_read indices (wrap32 (pt * uint32 numInfluencesPerPoint + uint32 c)) of
           Inl e \<Rightarrow> Inl e
         | Inr jointIdx \<Rightarrow>
             if 0 \<le> sint jointIdx \<and> uint32 (sint jointIdx) < numJoints then
               (case array_read weights
                       (wrap32 (pt * uint32 numInfluencesPerPoint + uint32 c)) of
                  Inl e \<Rightarrow> Inl e
                | Inr w \<Rightarrow>
                    (let p = wrap32 (pt * numJoints + uint32 (sint jointIdx))
                     in if p < length vertOrderedWeights
                        then influences_of_point indices weights numInfluencesPerPoint numJoints
                               pt (c + 1)
                               (vertOrderedWeights[p := ieee_add round64 (vertOrderedWeights ! p) w])
                        else Inl OutOfRange))
             else influences_of_point indices weights numInfluencesPerPoint numJoints
                    pt (c + 1) vertOrderedWeights)
      else Inr vertOrderedWeights)"
  by pat_completeness auto
termination
  by (relation "measure (\<lambda>(indices, weights, k, numJoints, pt, c, vw). nat (k - c))") auto

text \<open>The outer loop \<^verbatim>\<open>for(unsigned int pt = 0; pt < numPoints; ++pt)\<close>.\<close>

function weights_of_points ::
  "32 word list \<Rightarrow> ieee list \<Rightarrow> int \<Rightarrow> nat \<Rightarrow> nat \<Rightarrow> nat \<Rightarrow> ieee list \<Rightarrow> error + ieee list" where
  "weights_of_points indices weights numInfluencesPerPoint numJoints numPoints pt
       vertOrderedWeights =
     (if pt < numPoints then
        (case influences_of_point indices weights numInfluencesPerPoint numJoints pt 0
                vertOrderedWeights of
           Inl e \<Rightarrow> Inl e
         | Inr vw \<Rightarrow>
             weights_of_points indices weights numInfluencesPerPoint numJoints numPoints
               (pt + 1) vw)
      else Inr vertOrderedWeights)"
  by pat_completeness auto
termination
  by (relation "measure (\<lambda>(indices, weights, k, numJoints, numPoints, pt, vw). numPoints - pt)")
     auto

text \<open>
  What Maya answers: the status of \<^verbatim>\<open>meshFn.getPath\<close>, of the construction of the
  \<^verbatim>\<open>MFnSkinCluster\<close> and of \<^verbatim>\<open>skinClusterFn.setWeights\<close> (given the influence indices
  and the weights it is called with).
\<close>

record skin_maya =
  getPath_status :: bool
  skinClusterFn_status :: bool
  setWeights_status :: "int list \<Rightarrow> ieee list \<Rightarrow> bool"

text \<open>
  The result is the returned \<^verbatim>\<open>bool\<close> and the arguments of the call of
  \<^verbatim>\<open>setWeights\<close>, if one was made.
\<close>

definition SetVaryingJointInfluences ::
  "skin_maya \<Rightarrow> 'obj list \<Rightarrow> 32 word list \<Rightarrow> ieee list \<Rightarrow> int \<Rightarrow> nat \<Rightarrow>
     error + bool \<times> (int list \<times> ieee list) option" where
  "SetVaryingJointInfluences maya joints indices weights numInfluencesPerPoint numPoints =
     (if length joints = 0 then Inr (True, None)
      else if \<not> getPath_status maya then Inr (False, None)
      else if \<not> skinClusterFn_status maya then Inr (False, None)
      else
        (let numJoints = wrap32 (length joints)
         in case weights_of_points indices weights numInfluencesPerPoint numJoints numPoints 0
                   (replicate (wrap32 (numPoints * numJoints)) (Finite 0)) of
              Inl e \<Rightarrow> Inl e
            | Inr vertOrderedWeights \<Rightarrow>
                (let influenceIndices = map int32 [0..<numJoints]
                 in Inr (setWeights_status maya influenceIndices vertOrderedWeights,
                         Some (influenceIndices, vertOrderedWeights)))))"

declare influences_of_point.simps [simp del]
declare weights_of_points.simps [simp del]

text \<open>The value accumulated on \<open>acc\<close>, in binary64 and in slot order, by the weights of the
  influence slots \<open>c0 \<le> c < K\<close> of point \<open>pt\<close> that name joint \<open>j\<close>.\<close>

definition slot_sum ::
  "32 word list \<Rightarrow> ieee list \<Rightarrow> nat \<Rightarrow> nat \<Rightarrow> nat \<Rightarrow> nat \<Rightarrow> ieee \<Rightarrow> ieee" where
  "slot_sum indices weights K pt j c0 acc =
     foldl (ieee_add round64) acc
       (map (\<lambda>c. weights ! (pt * K + c))
          (filter (\<lambda>c. sint (indices ! (pt * K + c)) = int j) [c0..<K]))"

text \<open>A Maya session in which every call of the function succeeds.\<close>

definition maya_ok :: skin_maya where
  "maya_ok = \<lparr>getPath_status = True, skinClusterFn_status = True,
              setWeights_status = (\<lambda>ii vw. True)\<rparr>"

subsection \<open>Maya objects and the skeleton query\<close>

text \<open>An \<^verbatim>\<open>MObject\<close> is either the null object \<^verbatim>\<open>MObject::kNullObj\<close> (\<open>None\<close>) or a handle to
  a node.\<close>

type_synonym 'n MObject = "'n option"

text \<open>
  What the translator reads from a \<^verbatim>\<open>UsdSkelSkeletonQuery\<close>: its validity
  (\<^verbatim>\<open>operator bool\<close>), the path of its prim, its joint order, the parent index of each joint
  (\<^verbatim>\<open>GetTopology().GetParent(i)\<close>), and the joint transforms at rest, local and in skeleton
  space (\<open>None\<close> when \<^verbatim>\<open>ComputeJointLocalTransforms\<close> or
  \<^verbatim>\<open>ComputeJointSkelTransforms\<close> returns false). The code of the query and of its
  topology is not part of the sources: \<open>GetParent\<close> is whatever the topology answers for
  an index, negative for a joint without parent.
\<close>

record ('p, 'm) UsdSkelSkeletonQuery =
  skel_valid :: bool
  skel_primPath :: 'p
  GetJointOrder :: "string list"
  GetParent :: "nat \<Rightarrow> int"
  ComputeJointLocalTransforms :: "'m list option"
  ComputeJointSkelTransforms :: "'m list option"

subsection \<open>\<^verbatim>\<open>_SetJointRadii\<close>\<close>

text \<open>
  The operations of the Gf library that the function uses, on matrices \<open>'m\<close> and vectors
  \<open>'v\<close>: \<^verbatim>\<open>GfMatrix4d::ExtractTranslation\<close>, the difference of two \<^verbatim>\<open>GfVec3d\<close> and
  \<^verbatim>\<open>GfVec3d::GetLength\<close>. In this function the \<^verbatim>\<open>float\<close> and \<^verbatim>\<open>double\<close> values are
  modelled as real numbers.
\<close>

record ('m, 'v) gf_ops =
  ExtractTranslation :: "'m \<Rightarrow> 'v"
  vec_minus :: "'v \<Rightarrow> 'v \<Rightarrow> 'v"
  GetLength :: "'v \<Rightarrow> real"

text \<open>
  The first loop, over the joints \<open>i\<close>: the state is the pair of the vectors
  \<^verbatim>\<open>radii\<close> and \<^verbatim>\<open>childCounts\<close>. The statement \<^verbatim>\<open>radii[parent] = radius\<close> is an assignment.
\<close>

function child_bone_radii ::
  "('m, 'v) gf_ops \<Rightarrow> (nat \<Rightarrow> int) \<Rightarrow> 'm list \<Rightarrow> nat \<Rightarrow> nat \<Rightarrow> real list \<times> int list \<Rightarrow>
     error + real list \<times> int list" where
  "child_bone_radii gf getParent restXforms numJoints i (radii, childCounts) =
     (if i < numJoints then
        (case array_read restXforms i of
           Inl e \<Rightarrow> Inl e
         | Inr xf \<Rightarrow>
             (let pivot = ExtractTranslation gf xf;
                  parent = getParent i
              in if parent \<ge> 0 \<and> nat parent < numJoints then
                   (case array_read restXforms (nat parent) of
                      Inl e \<Rightarrow> Inl e
                    | Inr pxf \<Rightarrow>
                        (let parentPivot = ExtractTranslation gf pxf;
                             len = GetLength gf (vec_minus gf pivot parentPivot);
                             radius = len * 0.1
                         in child_bone_radii gf getParent restXforms numJoints (i + 1)
                              (radii[nat parent := radius],
                               childCounts[nat parent := childCounts ! nat parent + 1])))
                 else child_bone_radii gf getParent restXforms numJoints (i + 1)
                        (radii, childCounts)))
      else Inr (radii, childCounts))"
  by pat_completeness auto
termination
  by (relation "measure (\<lambda>(gf, getParent, restXforms, numJoints, i, s). numJoints - i)") auto

text \<open>
  What Maya answers in the second loop: whether \<^verbatim>\<open>jointDep.setObject\<close> accepts a joint
  node, and whether \<^verbatim>\<open>PxrUsdMayaUtil::setPlugValue\<close> succeeds.
\<close>

record 'n radii_maya =
  setObject_ok :: "'n MObject \<Rightarrow> bool"
  setPlugValue_ok :: "'n MObject \<Rightarrow> string \<Rightarrow> real \<Rightarrow> bool"

text \<open>The second loop. \<open>plugs\<close> collects the radius plugs set so far, as pairs of the
  joint's index and the value.\<close>

function resolve_radii ::
  "'n radii_maya \<Rightarrow> (nat \<Rightarrow> int) \<Rightarrow> 'n MObject list \<Rightarrow> int list \<Rightarrow> nat \<Rightarrow> nat \<Rightarrow> real list \<Rightarrow>
     (nat \<times> real) list \<Rightarrow> bool \<times> (nat \<times> real) list" where
  "resolve_radii maya getParent jointNodes childCounts numJoints i radii plugs =
     (if i < numJoints then
        if setObject_ok maya (jointNodes ! i) then
          (let count = childCounts ! i;
               radius =
                 (if count > 0 then radii ! i / real_of_int count
                  else (let parent = getParent i
                        in if parent \<ge> 0 \<and> nat parent < numJoints then radii ! nat parent
                           else 1.0))
           in if \<not> setPlugValue_ok maya (jointNodes ! i) ''radius'' radius then (False, plugs)
              else resolve_radii maya getParent jointNodes childCounts numJoints (i + 1)
                     (radii[i := radius]) (plugs @ [(i, radius)]))
        else resolve_radii maya getParent jointNodes childCounts numJoints (i + 1) radii plugs
      else (True, plugs))"
  by pat_completeness auto
termination
  by (relation "measure (\<lambda>(maya, getParent, jointNodes, childCounts, numJoints, i, r).
        numJoints - i)") auto

definition SetJointRadii ::
  "'n radii_maya \<Rightarrow> ('m, 'v) gf_ops \<Rightarrow> ('p, 'm) UsdSkelSkeletonQuery \<Rightarrow> 'n MObject list \<Rightarrow> 'm list \<Rightarrow>
     error + bool \<times> (nat \<times> real) list" where
  "SetJointRadii maya gf skelQuery jointNodes restXforms =
     (let numJoints = length jointNodes
      in case child_bone_radii gf (GetParent skelQuery) restXforms numJoints 0
                (replicate numJoints 1, replicate numJoints 0) of
           Inl e \<Rightarrow> Inl e
         | Inr (radii, childCounts) \<Rightarrow>
             Inr (resolve_radii maya (GetParent skelQuery) jointNodes childCounts numJoints 0
                    radii []))"

declare child_bone_radii.simps [simp del]
declare resolve_radii.simps [simp del]

text \<open>
  A skeleton of three joints: a root at the origin with two children, at distance 1 and at
  distance 2 on the x axis. A transform is given by its translation; the vector operations
  are the Euclidean ones. Maya accepts every non-null joint and sets every plug.
\<close>

definition gf_euclid :: "(real \<times> real \<times> real, real \<times> real \<times> real) gf_ops" where
  "gf_euclid =
     \<lparr>ExtractTranslation = (\<lambda>m. m),
      vec_minus = (\<lambda>(ax, ay, az) (bx, by, bz). (ax - bx, ay - by, az - bz)),
      GetLength = (\<lambda>(x, y, z). sqrt (x * x + y * y + z * z))\<rparr>"

definition fork_skel :: "(string, real \<times> real \<times> real) UsdSkelSkeletonQuery" where
  "fork_skel =
     \<lparr>skel_valid = True, skel_primPath = ''/Skel'',
      GetJointOrder = [''a'', ''a/b'', ''a/c''],
      GetParent = (\<lambda>i. if i = 0 then - 1 else 0),
      ComputeJointLocalTransforms = Some [(0, 0, 0), (1, 0, 0), (2, 0, 0)],
      ComputeJointSkelTransforms = Some [(0, 0, 0), (1, 0, 0), (2, 0, 0)]\<rparr>"

definition radii_maya_ok :: "nat radii_maya" where
  "radii_maya_ok =
     \<lparr>setObject_ok = (\<lambda>obj. obj \<noteq> None), setPlugValue_ok = (\<lambda>obj attr v. True)\<rparr>"

subsection \<open>\<^verbatim>\<open>PxrUsdMayaTranslatorSkel::CreateSkinCluster\<close>\<close>

text \<open>The coding errors that the function posts with \<^verbatim>\<open>TF_CODING_ERROR\<close>.\<close>

datatype coding_error = SkelQueryInvalid | SkinningQueryInvalid | PrimToSkinInvalid

text \<open>The values of \<^verbatim>\<open>MFn::Type\<close>, as far as the function tells them apart.\<close>

datatype MFn_Type = kMesh | kOtherType

text \<open>
  What Maya answers while the input mesh is resolved: the status of
  \<^verbatim>\<open>MDagPath::getAPathTo\<close> and of \<^verbatim>\<open>extendToShape\<close>, the node of the shape path
  (\<open>None\<close> when \<^verbatim>\<open>shapeDagPath.node\<close> fails) and its \<^verbatim>\<open>apiType\<close>.
\<close>

record 'n skin_cluster_maya =
  getAPathTo_status :: "'n \<Rightarrow> bool"
  extendToShape_status :: "'n \<Rightarrow> bool"
  shapeDagPath_node :: "'n \<Rightarrow> 'n MObject option"
  apiType :: "'n MObject \<Rightarrow> MFn_Type"

text \<open>
  The function up to the test of the shape's type. \<open>objToSkin\<close> is what
  \<^verbatim>\<open>context->GetMayaNode(primToSkin.GetPath(), false)\<close> returns. The rest of the function, which
  builds the rig for the mesh, is the parameter \<open>rig\<close>: it returns the function's result and
  the rig nodes it created. The model returns the result, the coding errors posted and the
  rig nodes created.
\<close>

definition CreateSkinCluster ::
  "'n skin_cluster_maya \<Rightarrow> bool \<Rightarrow> bool \<Rightarrow> bool \<Rightarrow> 'n MObject \<Rightarrow> ('n MObject \<Rightarrow> bool \<times> 'r list) \<Rightarrow>
     bool \<times> coding_error list \<times> 'r list" where
  "CreateSkinCluster maya skelQuery_valid skinningQuery_valid primToSkin_valid objToSkin rig =
     (if \<not> skelQuery_valid then (False, [SkelQueryInvalid], [])
      else
        (let posted = (if \<not> skinningQuery_valid then [SkinningQueryInvalid] else [])
         in if \<not> primToSkin_valid then (False, posted @ [PrimToSkinInvalid], [])
            else
              (case objToSkin of
                 None \<Rightarrow> (True, posted, [])
               | Some obj \<Rightarrow>
                   if \<not> getAPathTo_status maya obj then (False, posted, [])
                   else if \<not> extendToShape_status maya obj then (False, posted, [])
                   else
                     (case shapeDagPath_node maya obj of
                        None \<Rightarrow> (False, posted, [])
                      | Some shapeToSkin \<Rightarrow>
                          if apiType maya shapeToSkin \<noteq> kMesh then (True, posted, [])
                          else (let (ok, nodes) = rig shapeToSkin in (ok, posted, nodes))))))"

subsection \<open>\<^verbatim>\<open>_CreateJointNodes\<close> and \<^verbatim>\<open>PxrUsdMayaTranslatorSkel::CreateJoints\<close>\<close>



























subsection \<open>\<^verbatim>\<open>PxrUsdMayaTranslatorSkel::CreateBindPose\<close>\<close>

text \<open>A plug of a node, found by name, or an element of an array plug.\<close>

datatype 'n MPlug = Plug 'n string | Element "'n MPlug" nat

text \<open>
  The calls of the Maya API that the function makes, with their arguments:
  \<^verbatim>\<open>dgMod.createNode\<close> (with the node it returned), \<^verbatim>\<open>dgMod.renameNode\<close>, the construction of
  an \<^verbatim>\<open>MFnDependencyNode\<close>, \<^verbatim>\<open>context->RegisterNewMayaNode\<close>, \<^verbatim>\<open>findPlug\<close>,
  \<^verbatim>\<open>setNumElements\<close>, \<^verbatim>\<open>elementByLogicalIndex\<close>, \<^verbatim>\<open>dgMod.connect\<close> (source, then
  destination), \<^verbatim>\<open>PxrUsdMayaUtil::setPlugMatrix\<close>, \<^verbatim>\<open>dgMod.doIt\<close> and
  \<^verbatim>\<open>PxrUsdMayaUtil::setPlugValue\<close>.
\<close>

datatype ('n, 'm) maya_call =
    DgCreateNode string 'n
  | DgRenameNode 'n string
  | FnDependencyNode 'n
  | RegisterNewMayaNode 'n
  | FindPlug 'n string
  | SetNumElements "'n MPlug" nat
  | ElementByLogicalIndex "'n MPlug" nat
  | DgConnect "'n MPlug" "'n MPlug"
  | SetPlugMatrix 'm "'n MPlug"
  | DgDoIt
  | SetPlugValue 'n string bool



fun node_created :: "('n, 'm) maya_call \<Rightarrow> bool" where
  "node_created (DgCreateNode type n) = True"
| "node_created c = False"


text \<open>
  The calls of the loop body for a joint \<open>i\<close> accepted by \<^verbatim>\<open>setObject\<close>, up to the read of
  \<^verbatim>\<open>xforms[i]\<close>.
\<close>

definition bindPose_joint_calls ::
  "'n \<Rightarrow> nat \<Rightarrow> (nat \<Rightarrow> int) \<Rightarrow> 'n \<Rightarrow> nat \<Rightarrow> ('n, 'm) maya_call list" where
  "bindPose_joint_calls bindPoseNode numJoints getParent joint i =
     (let members = Plug bindPoseNode ''members'';
          world = Plug bindPoseNode ''world'';
          worldMatrix = Plug bindPoseNode ''worldMatrix'';
          xformMatrix = Plug bindPoseNode ''xformMatrix'';
          parents = Plug bindPoseNode ''parents'';
          parentIdx = getParent i
      in [FindPlug joint ''message'',
          ElementByLogicalIndex members i,
          DgConnect (Plug joint ''message'') (Element members i),
          FindPlug joint ''bindPose'',
          ElementByLogicalIndex worldMatrix i,
          DgConnect (Plug joint ''bindPose'') (Element worldMatrix i),
          ElementByLogicalIndex parents i] @
         (if parentIdx \<ge> 0 \<and> nat parentIdx < numJoints
          then [ElementByLogicalIndex members (nat parentIdx),
                DgConnect (Element members (nat parentIdx)) (Element parents i)]
          else [DgConnect world (Element parents i)]) @
         [ElementByLogicalIndex xformMatrix i])"








text \<open>
  What the calls made have wired: the sources that \<^verbatim>\<open>dgMod.connect\<close> was given for the
  destination \<open>dst\<close>, the matrices that \<^verbatim>\<open>setPlugMatrix\<close> was given for the plug \<open>plug\<close>, both
  in the order of the calls, and the plug that a call connects to or sets.
\<close>

fun connect_source :: "'n MPlug \<Rightarrow> ('n, 'm) maya_call \<Rightarrow> 'n MPlug list" where
  "connect_source dst (DgConnect src dst') = (if dst' = dst then [src] else [])"
| "connect_source dst c = []"

definition sources_of :: "('n, 'm) maya_call list \<Rightarrow> 'n MPlug \<Rightarrow> 'n MPlug list" where
  "sources_of made dst = concat (map (connect_source dst) made)"

fun matrix_set :: "'n MPlug \<Rightarrow> ('n, 'm) maya_call \<Rightarrow> 'm list" where
  "matrix_set plug (SetPlugMatrix m plug') = (if plug' = plug then [m] else [])"
| "matrix_set plug c = []"

definition matrices_of :: "('n, 'm) maya_call list \<Rightarrow> 'n MPlug \<Rightarrow> 'm list" where
  "matrices_of made plug = concat (map (matrix_set plug) made)"



section \<open>Rounding of particular numbers\<close>

lemma powr_of_int_powi: "(2::real) powr (of_int k) = 2 powi k"
  by (simp add: powr_real_of_int power_int_def power_one_over inverse_eq_divide)

lemma floor_log2_eq:
  assumes "2 powi k \<le> x" and "x < 2 powi (k + 1)"
  shows "\<lfloor>log 2 x\<rfloor> = k"
proof -
  have "(0::real) < 2 powi k" by simp
  with assms(1) have pos: "0 < x" by linarith
  have "(2::real) powr (of_int k) \<le> x" using assms(1) by (simp only: powr_of_int_powi)
  moreover have "x < (2::real) powr (of_int (k + 1))"
    using assms(2) by (simp only: powr_of_int_powi)
  ultimately show ?thesis
    using floor_log_eq_powr_iff [of x 2 k] pos by simp
qed

text \<open>Rounding a number whose binade \<open>2 ^ k \<le> |x| < 2 ^ (k + 1)\<close> is known.\<close>

lemma round_to_binade:
  assumes "x \<noteq> 0" and "2 powi k \<le> \<bar>x\<bar>" and "\<bar>x\<bar> < 2 powi (k + 1)"
  shows "round_to p emin emax x =
     (let e = max k emin - (int p - 1);
          y = of_int (rne (x / 2 powi e)) * 2 powi e
      in if 2 powi (emax + 1) \<le> \<bar>y\<bar> then (if 0 < x then PlusInf else MinusInf)
         else Finite y)"
  using assms(1) floor_log2_eq [OF assms(2,3)] by (simp add: round_to_def)

lemma round32_0: "round32 0 = Finite 0"
  by (simp add: round32_def round_to_def)

lemma round32_1: "round32 1 = Finite 1"
  unfolding round32_def
  by (subst round_to_binade [where k = 0]) (simp_all add: rne_def Let_def)

lemma round32_half: "round32 (1/2) = Finite (1/2)"
  unfolding round32_def
  by (subst round_to_binade [where k = "- 1"]) (simp_all add: rne_def Let_def)

text \<open>The literal \<open>0.02\<close> as a binary32 number, and \<open>1 - 0.02\<close> in binary32.\<close>

lemma round32_pickRadius: "round32 0.02 = Finite (5368709/268435456)"
  unfolding round32_def
  by (subst round_to_binade [where k = "- 6"]) (simp_all add: rne_def Let_def)

lemma round32_delHigh: "round32 (1 - 5368709/268435456) = Finite (2055209/2097152)"
  unfolding round32_def
  by (subst round_to_binade [where k = "- 1"]) (simp_all add: rne_def Let_def)

lemma round32_near_half: "round32 (1/2 - 5368709/268435456) = Finite (16106127/33554432)"
  unfolding round32_def
  by (subst round_to_binade [where k = "- 2"]) (simp_all add: rne_def Let_def)

section \<open>Properties of the edge identification shaders\<close>

lemma pickRadius_value: "pickRadius = Finite (5368709/268435456)"
  using round32_pickRadius by (simp add: pickRadius_def)

lemma delHigh_value: "ieee_sub round32 (Finite 1) pickRadius = Finite (2055209/2097152)"
  using round32_delHigh by (simp add: pickRadius_value ieee_sub_def)

text \<open>
  Claim C1, amended. In the Bary fragment mixin the interpolated input \<open>(u, v)\<close> is expanded
  to \<open>(x, y, z) = (1 - u - v, u, v)\<close>, the two subtractions being binary32 subtractions, and
  the edge id is 0 if \<open>z < p\<close>, else 1 if \<open>x < p\<close>, else 2 if \<open>y < p\<close>, and -1
  otherwise, where \<open>p\<close> is \<open>pickRadius\<close>, the binary32 number nearest to 0.02, which is
  5368709/268435456.
\<close>

theorem GetPrimitiveEdgeId_Bary_priority:
  "pickRadius = Finite (5368709/268435456) \<and>
   ExpandBaryCoord (Vec2 u v) =
     Vec3 (ieee_sub round32 (ieee_sub round32 (Finite 1) u) v) u v \<and>
   GetPrimitiveEdgeId_Bary (Vec2 u v) =
     (if ieee_less v (Finite (5368709/268435456)) then 0
      else if ieee_less (ieee_sub round32 (ieee_sub round32 (Finite 1) u) v)
                (Finite (5368709/268435456)) then 1
      else if ieee_less u (Finite (5368709/268435456)) then 2
      else - 1)"
  by (simp add: GetPrimitiveEdgeId_Bary_def ExpandBaryCoord_def pickRadius_value Let_def)

text \<open>
  Claim C1 as stated fails: for \<open>u = 1/2\<close> and \<open>v\<close> the binary32 number nearest to 0.02,
  \<open>z = v\<close> is below 0.02, and the edge id is -1, not 0.
\<close>

theorem GetPrimitiveEdgeId_Bary_threshold_counterexample:
  "(5368709/268435456 :: real) < 0.02 \<and>
   GetPrimitiveEdgeId_Bary (Vec2 (Finite (1/2)) (Finite (5368709/268435456))) = - 1"
proof -
  have "(1::real) + - (1/2) = 1/2" by simp
  then have x: "ieee_sub round32 (ieee_sub round32 (Finite 1) (Finite (1/2)))
      (Finite (5368709/268435456)) = Finite (16106127/33554432)"
    using round32_near_half by (simp add: ieee_sub_def round32_half)
  show ?thesis
    by (simp add: GetPrimitiveEdgeId_Bary_def ExpandBaryCoord_def pickRadius_value Let_def x)
qed

text \<open>
  Claim C2, amended. In the Rect fragment mixin, with \<open>uv = gsRect\<close>, the edge id is 0 if
  \<open>uv.y < p\<close>, else 1 if \<open>uv.x > h\<close>, else 2 if \<open>uv.y > h\<close>, else 3 if \<open>uv.x < p\<close>,
  and -1 otherwise, where \<open>p = delLow = pickRadius\<close> is the binary32 number nearest to 0.02,
  5368709/268435456, and \<open>h = delHigh\<close> is \<open>1 - delLow\<close> in binary32, 2055209/2097152.
\<close>

theorem GetPrimitiveEdgeId_Rect_priority:
  "pickRadius = Finite (5368709/268435456) \<and>
   ieee_sub round32 (Finite 1) pickRadius = Finite (2055209/2097152) \<and>
   GetPrimitiveEdgeId_Rect (Vec2 ux uy) =
     (if ieee_less uy (Finite (5368709/268435456)) then 0
      else if ieee_less (Finite (2055209/2097152)) ux then 1
      else if ieee_less (Finite (2055209/2097152)) uy then 2
      else if ieee_less ux (Finite (5368709/268435456)) then 3
      else - 1)"
  using delHigh_value
  by (simp add: GetPrimitiveEdgeId_Rect_def Let_def pickRadius_value)

text \<open>
  Claim C2 as stated fails: for \<open>uv.x\<close> the binary32 number nearest to 0.98, which is above
  0.98, and \<open>uv.y = 1/2\<close>, the edge id is -1, not 1.
\<close>

theorem GetPrimitiveEdgeId_Rect_threshold_counterexample:
  "(0.98 :: real) < 2055209/2097152 \<and>
   GetPrimitiveEdgeId_Rect (Vec2 (Finite (2055209/2097152)) (Finite (1/2))) = - 1"
  using delHigh_value
  by (simp add: GetPrimitiveEdgeId_Rect_def Let_def pickRadius_value)

text \<open>
  Claim C3. In both the Bary and the Rect fragment mixin, \<open>IsFragmentOnEdge\<close> is true
  exactly when \<open>GetPrimitiveEdgeId\<close> returns a value other than -1.
\<close>

theorem IsFragmentOnEdge_iff_edge_id:
  "IsFragmentOnEdge_Bary gsBaryCoord = (GetPrimitiveEdgeId_Bary gsBaryCoord \<noteq> - 1) \<and>
   IsFragmentOnEdge_Rect gsRect = (GetPrimitiveEdgeId_Rect gsRect \<noteq> - 1)"
proof
  show "IsFragmentOnEdge_Bary gsBaryCoord = (GetPrimitiveEdgeId_Bary gsBaryCoord \<noteq> - 1)"
    by (auto simp: IsFragmentOnEdge_Bary_def GetPrimitiveEdgeId_Bary_def Let_def
        lessThan3_def vec3_splat_def)
next
  show "IsFragmentOnEdge_Rect gsRect = (GetPrimitiveEdgeId_Rect gsRect \<noteq> - 1)"
    by (auto simp: IsFragmentOnEdge_Rect_def GetPrimitiveEdgeId_Rect_def Let_def
        lessThan2_def greaterThan2_def vec2_splat_def)
qed

text \<open>
  Claim C9. For every index in \<open>{0, 1, 2}\<close> the array access of \<open>GetBaryCoord\<close> is in
  bounds (a value is returned), and expanding the returned 2-component encoding gives the
  unit barycentric vector with 1 at position \<open>index\<close> and 0 elsewhere.
\<close>

theorem ExpandBaryCoord_GetBaryCoord:
  assumes "index \<in> {0, 1, 2}"
  shows "\<exists>bc. GetBaryCoord index = Some bc \<and>
           ExpandBaryCoord bc =
             Vec3 (Finite (if index = 0 then 1 else 0))
                  (Finite (if index = 1 then 1 else 0))
                  (Finite (if index = 2 then 1 else 0))"
  using assms
  by (auto simp: GetBaryCoord_def barys_def swizzle_yz_def ExpandBaryCoord_def ieee_sub_def
      round32_0 round32_1)

theorem ExpandBaryCoord_GetBaryCoord_witness:
  "(1::int) \<in> {0, 1, 2} \<and>
   (\<exists>bc. GetBaryCoord 1 = Some bc \<and> ExpandBaryCoord bc = Vec3 (Finite 0) (Finite 1) (Finite 0))"
  using ExpandBaryCoord_GetBaryCoord [of 1] by simp

text \<open>
  Claim C10. In the BaryFallback mixin \<open>GetPrimitiveEdgeId\<close> returns -1 and
  \<open>IsFragmentOnEdge\<close> returns false for every fragment.
\<close>

theorem BaryFallback_never_on_edge:
  "GetPrimitiveEdgeId_BaryFallback frag = - 1 \<and> IsFragmentOnEdge_BaryFallback frag = False"
  by (simp add: GetPrimitiveEdgeId_BaryFallback_def IsFragmentOnEdge_BaryFallback_def)

section \<open>Properties of the skin cluster weights\<close>

lemma block_index_inj:
  fixes n :: nat
  assumes eq: "a * n + i = b * n + j" and i: "i < n" and j: "j < n"
  shows "a = b \<and> i = j"
proof -
  have "(a * n + i) div n = a" using i by simp
  moreover have "(b * n + j) div n = b" using j by simp
  ultimately have ab: "a = b" using eq by metis
  with eq show ?thesis by simp
qed

lemma block_index_less:
  fixes n :: nat
  assumes "a < m" and "i < n"
  shows "a * n + i < m * n"
proof -
  have "a * n + i < a * n + n" using assms(2) by simp
  also have "\<dots> = (a + 1) * n" by simp
  also have "\<dots> \<le> m * n" using assms(1) by (intro mult_le_mono1) simp
  finally show ?thesis .
qed

lemma uint32_sint:
  fixes w :: "32 word"
  assumes "0 \<le> sint w"
  shows "uint32 (sint w) = nat (sint w)"
proof -
  have "sint w < 2 ^ 31" using sint_lt [of w] by simp
  then have "sint w < 2 ^ 32" by simp
  with assms show ?thesis by (simp add: uint32_def)
qed

lemma influences_of_point_sum:
  assumes pt: "pt < numPoints"
    and nj: "numPoints * numJoints < 2 ^ 32"
    and nk: "numPoints * nat k < 2 ^ 32"
    and li: "numPoints * nat k \<le> length indices"
    and lw: "numPoints * nat k \<le> length weights"
    and lv: "length vw = numPoints * numJoints"
    and c0: "0 \<le> c"
  shows "\<exists>vw'. influences_of_point indices weights k numJoints pt c vw = Inr vw' \<and>
           length vw' = length vw \<and>
           (\<forall>pt' j. pt' < numPoints \<longrightarrow> j < numJoints \<longrightarrow>
              vw' ! (pt' * numJoints + j) =
                (if pt' = pt
                 then slot_sum indices weights (nat k) pt j (nat c) (vw ! (pt' * numJoints + j))
                 else vw ! (pt' * numJoints + j)))"
  using lv c0
proof (induction "nat (k - c)" arbitrary: c vw)
  case 0
  then have nck: "\<not> c < k" by simp
  then have "[nat c..<nat k] = []" by simp
  with nck show ?case
    by (simp add: influences_of_point.simps slot_sum_def)
next
  case (Suc m)
  then have ck: "c < k" and c0: "0 \<le> c" by simp_all
  have kpos: "0 < k" using ck c0 by simp
  have klt: "nat k < 2 ^ 32"
  proof -
    have "0 * nat k + nat c < numPoints * nat k"
      using pt ck c0 by (intro block_index_less) simp_all
    then have "0 < numPoints" by (cases numPoints) simp_all
    then have "nat k \<le> numPoints * nat k" by simp
    with nk show ?thesis by linarith
  qed
  have uk: "uint32 k = nat k" using kpos klt by (simp add: uint32_def)
  have uc: "uint32 c = nat c" using c0 ck klt by (simp add: uint32_def)
  have slot_lt: "pt * nat k + nat c < numPoints * nat k"
    using pt ck c0 by (intro block_index_less) simp_all
  then have slot: "wrap32 (pt * uint32 k + uint32 c) = pt * nat k + nat c"
    using nk uk uc by (simp add: wrap32_def)
  define jointIdx where "jointIdx = indices ! (pt * nat k + nat c)"
  define w where "w = weights ! (pt * nat k + nat c)"
  have ri: "array_read indices (pt * nat k + nat c) = Inr jointIdx"
    using slot_lt li by (simp add: array_read_def jointIdx_def)
  have rw: "array_read weights (pt * nat k + nat c) = Inr w"
    using slot_lt lw by (simp add: array_read_def w_def)
  have m: "m = nat (k - (c + 1))" using Suc.hyps(2) by simp
  have suc: "nat (c + 1) = Suc (nat c)" using c0 by simp
  have "nat c < nat k" using ck c0 by simp
  then have upt: "[nat c..<nat k] = nat c # [nat (c + 1)..<nat k]"
    unfolding suc by (rule upt_conv_Cons)
  have step: "slot_sum indices weights (nat k) pt j (nat c) acc =
                slot_sum indices weights (nat k) pt j (nat (c + 1))
                  (if sint jointIdx = int j then ieee_add round64 acc w else acc)" for j acc
    by (simp add: slot_sum_def upt jointIdx_def w_def)
  show ?case
  proof (cases "0 \<le> sint jointIdx \<and> uint32 (sint jointIdx) < numJoints")
    case False
    have unfold: "influences_of_point indices weights k numJoints pt c vw =
                    influences_of_point indices weights k numJoints pt (c + 1) vw"
      using ck by (subst influences_of_point.simps) (simp add: slot ri False)
    from Suc.hyps(1) [OF m Suc.prems(1)] c0
    obtain vw' where r: "influences_of_point indices weights k numJoints pt (c + 1) vw = Inr vw'"
      "length vw' = length vw"
      "\<And>pt' j. pt' < numPoints \<Longrightarrow> j < numJoints \<Longrightarrow>
              vw' ! (pt' * numJoints + j) =
                (if pt' = pt
                 then slot_sum indices weights (nat k) pt j (nat (c + 1))
                        (vw ! (pt' * numJoints + j))
                 else vw ! (pt' * numJoints + j))"
      by auto
    have ne: "sint jointIdx \<noteq> int j" if "j < numJoints" for j
    proof
      assume eq: "sint jointIdx = int j"
      then have nn: "0 \<le> sint jointIdx" by simp
      have "uint32 (sint jointIdx) = nat (sint jointIdx)" using nn by (rule uint32_sint)
      also have "\<dots> = j" using eq by simp
      finally show False using False nn that by simp
    qed
    have "slot_sum indices weights (nat k) pt j (nat c) acc =
            slot_sum indices weights (nat k) pt j (nat (c + 1)) acc" if "j < numJoints" for j acc
      using ne [OF that] by (simp add: step)
    with r unfold show ?thesis by simp
  next
    case True
    define J where "J = nat (sint jointIdx)"
    have uJ: "uint32 (sint jointIdx) = J" using True by (simp add: uint32_sint J_def)
    have J: "J < numJoints" using True uJ by simp
    have sJ: "sint jointIdx = int J" using True by (simp add: J_def)
    have p_lt: "pt * numJoints + J < numPoints * numJoints"
      using pt J by (rule block_index_less)
    then have p: "wrap32 (pt * numJoints + uint32 (sint jointIdx)) = pt * numJoints + J"
      using nj uJ by (simp add: wrap32_def)
    define vw1 where
      "vw1 = vw[pt * numJoints + J := ieee_add round64 (vw ! (pt * numJoints + J)) w]"
    have l1: "length vw1 = numPoints * numJoints" using Suc.prems(1) by (simp add: vw1_def)
    have unfold: "influences_of_point indices weights k numJoints pt c vw =
                    influences_of_point indices weights k numJoints pt (c + 1) vw1"
      using True ck p_lt Suc.prems(1)
      by (subst influences_of_point.simps) (simp add: slot ri rw p vw1_def Let_def)
    from Suc.hyps(1) [OF m l1] c0
    obtain vw' where r: "influences_of_point indices weights k numJoints pt (c + 1) vw1 = Inr vw'"
      "length vw' = length vw1"
      "\<And>pt' j. pt' < numPoints \<Longrightarrow> j < numJoints \<Longrightarrow>
              vw' ! (pt' * numJoints + j) =
                (if pt' = pt
                 then slot_sum indices weights (nat k) pt j (nat (c + 1))
                        (vw1 ! (pt' * numJoints + j))
                 else vw1 ! (pt' * numJoints + j))"
      by auto
    have at: "vw1 ! (pt' * numJoints + j) =
                (if pt' = pt \<and> j = J then ieee_add round64 (vw ! (pt' * numJoints + j)) w
                 else vw ! (pt' * numJoints + j))"
      if "pt' < numPoints" "j < numJoints" for pt' j
    proof (cases "pt' * numJoints + j = pt * numJoints + J")
      case True
      then have "pt' = pt \<and> j = J" using that(2) J by (rule block_index_inj)
      then show ?thesis using p_lt Suc.prems(1) by (simp add: vw1_def)
    next
      case False
      then have "\<not> (pt' = pt \<and> j = J)" by auto
      with False show ?thesis by (auto simp: vw1_def)
    qed
    have "vw' ! (pt' * numJoints + j) =
                (if pt' = pt
                 then slot_sum indices weights (nat k) pt j (nat c) (vw ! (pt' * numJoints + j))
                 else vw ! (pt' * numJoints + j))"
      if "pt' < numPoints" "j < numJoints" for pt' j
      using r(3) [OF that] at [OF that] by (auto simp: step sJ)
    moreover have "length vw' = length vw" using r(2) l1 Suc.prems(1) by simp
    ultimately show ?thesis using r(1) unfold by simp
  qed
qed


lemma weights_of_points_sum:
  assumes nj: "numPoints * numJoints < 2 ^ 32"
    and nk: "numPoints * nat k < 2 ^ 32"
    and li: "numPoints * nat k \<le> length indices"
    and lw: "numPoints * nat k \<le> length weights"
    and lv: "length vw = numPoints * numJoints"
  shows "\<exists>vw'. weights_of_points indices weights k numJoints numPoints pt vw = Inr vw' \<and>
           length vw' = length vw \<and>
           (\<forall>pt' j. pt' < numPoints \<longrightarrow> j < numJoints \<longrightarrow>
              vw' ! (pt' * numJoints + j) =
                (if pt \<le> pt'
                 then slot_sum indices weights (nat k) pt' j 0 (vw ! (pt' * numJoints + j))
                 else vw ! (pt' * numJoints + j)))"
  using lv
proof (induction "numPoints - pt" arbitrary: pt vw)
  case 0
  then have "\<not> pt < numPoints" by simp
  then show ?case by (simp add: weights_of_points.simps)
next
  case (Suc m)
  then have pt: "pt < numPoints" by simp
  from influences_of_point_sum [OF pt nj nk li lw Suc.prems, of 0]
  obtain vw1 where r1: "influences_of_point indices weights k numJoints pt 0 vw = Inr vw1"
    "length vw1 = length vw"
    "\<And>pt' j. pt' < numPoints \<Longrightarrow> j < numJoints \<Longrightarrow>
        vw1 ! (pt' * numJoints + j) =
          (if pt' = pt then slot_sum indices weights (nat k) pt j 0 (vw ! (pt' * numJoints + j))
           else vw ! (pt' * numJoints + j))"
    by auto
  have l1: "length vw1 = numPoints * numJoints" using r1(2) Suc.prems by simp
  have m: "m = numPoints - (pt + 1)" using Suc.hyps(2) by simp
  from Suc.hyps(1) [OF m l1]
  obtain vw' where r: "weights_of_points indices weights k numJoints numPoints (pt + 1) vw1 = Inr vw'"
    "length vw' = length vw1"
    "\<And>pt' j. pt' < numPoints \<Longrightarrow> j < numJoints \<Longrightarrow>
        vw' ! (pt' * numJoints + j) =
          (if pt + 1 \<le> pt'
           then slot_sum indices weights (nat k) pt' j 0 (vw1 ! (pt' * numJoints + j))
           else vw1 ! (pt' * numJoints + j))"
    by auto
  have unfold: "weights_of_points indices weights k numJoints numPoints pt vw =
                  weights_of_points indices weights k numJoints numPoints (pt + 1) vw1"
    using pt by (subst weights_of_points.simps) (simp add: r1(1))
  have "vw' ! (pt' * numJoints + j) =
          (if pt \<le> pt'
           then slot_sum indices weights (nat k) pt' j 0 (vw ! (pt' * numJoints + j))
           else vw ! (pt' * numJoints + j))"
    if "pt' < numPoints" "j < numJoints" for pt' j
  proof -
    consider "pt' = pt" | "pt + 1 \<le> pt'" | "pt' < pt" by linarith
    then show ?thesis
      using r(3) [OF that] r1(3) [OF that] by cases simp_all
  qed
  then show ?case using unfold r(1) r(2) r1(2) by simp
qed

lemma wrap32_less: "n < 2 ^ 32 \<Longrightarrow> wrap32 n = n"
  by (simp add: wrap32_def)

lemma SetVaryingJointInfluences_sum:
  assumes j0: "joints \<noteq> []"
    and ok: "getPath_status maya" "skinClusterFn_status maya"
    and nj: "numPoints * length joints < 2 ^ 32"
    and nk: "numPoints * nat k < 2 ^ 32"
    and li: "numPoints * nat k \<le> length indices"
    and lw: "numPoints * nat k \<le> length weights"
  shows "\<exists>ii vw. SetVaryingJointInfluences maya joints indices weights k numPoints =
                   Inr (setWeights_status maya ii vw, Some (ii, vw)) \<and>
           ii = map int32 [0..<wrap32 (length joints)] \<and>
           length vw = numPoints * length joints \<and>
           (\<forall>pt j. pt < numPoints \<longrightarrow> j < length joints \<longrightarrow>
              vw ! (pt * length joints + j) =
                slot_sum indices weights (nat k) pt j 0 (Finite 0))"
proof -
  define numJoints where "numJoints = wrap32 (length joints)"
  have same: "numJoints = length joints" if "0 < numPoints"
  proof -
    have "length joints \<le> numPoints * length joints" using that by simp
    with nj have "length joints < 2 ^ 32" by linarith
    then show ?thesis by (simp add: numJoints_def wrap32_less)
  qed
  have prod: "numPoints * numJoints = numPoints * length joints"
    using same by (cases "numPoints = 0") simp_all
  have nj': "numPoints * numJoints < 2 ^ 32" unfolding prod by (rule nj)
  have w: "wrap32 (numPoints * numJoints) = numPoints * numJoints"
    using nj' by (rule wrap32_less)
  define vw0 where "vw0 = replicate (numPoints * numJoints) (Finite 0)"
  have l0: "length vw0 = numPoints * numJoints" by (simp add: vw0_def)
  from weights_of_points_sum [OF nj' nk li lw l0, of 0]
  obtain vw where r: "weights_of_points indices weights k numJoints numPoints 0 vw0 = Inr vw"
    "length vw = length vw0"
    "\<And>pt j. pt < numPoints \<Longrightarrow> j < numJoints \<Longrightarrow>
        vw ! (pt * numJoints + j) =
          slot_sum indices weights (nat k) pt j 0 (vw0 ! (pt * numJoints + j))"
    by auto
  have res: "SetVaryingJointInfluences maya joints indices weights k numPoints =
          Inr (setWeights_status maya (map int32 [0..<numJoints]) vw,
               Some (map int32 [0..<numJoints], vw))"
    using j0 ok r(1)
    by (simp add: SetVaryingJointInfluences_def Let_def numJoints_def [symmetric] w
        vw0_def [symmetric])
  have "vw ! (pt * length joints + j) = slot_sum indices weights (nat k) pt j 0 (Finite 0)"
    if "pt < numPoints" "j < length joints" for pt j
  proof -
    have np: "0 < numPoints" using that(1) by simp
    have j: "j < numJoints" using that(2) same [OF np] by simp
    have "pt * numJoints + j < numPoints * numJoints" using that(1) j by (rule block_index_less)
    then have "vw0 ! (pt * numJoints + j) = Finite 0" by (simp add: vw0_def)
    with r(3) [OF that(1) j] same [OF np] show ?thesis by simp
  qed
  moreover have "length vw = numPoints * length joints" using r(2) l0 prod by simp
  ultimately show ?thesis using res by (simp add: numJoints_def)
qed

lemma slot_sum_update:
  assumes "\<not> (0 \<le> sint (indices ! i) \<and> sint (indices ! i) < int numJoints)"
    and "j < numJoints"
  shows "slot_sum indices (weights[i := w]) K pt j c0 acc =
         slot_sum indices weights K pt j c0 acc"
proof -
  have "map (\<lambda>c. weights[i := w] ! (pt * K + c))
          (filter (\<lambda>c. sint (indices ! (pt * K + c)) = int j) [c0..<K]) =
        map (\<lambda>c. weights ! (pt * K + c))
          (filter (\<lambda>c. sint (indices ! (pt * K + c)) = int j) [c0..<K])"
  proof (rule map_cong [OF refl])
    fix c
    assume "c \<in> set (filter (\<lambda>c. sint (indices ! (pt * K + c)) = int j) [c0..<K])"
    then have "sint (indices ! (pt * K + c)) = int j" by simp
    with assms have "pt * K + c \<noteq> i" by auto
    then show "weights[i := w] ! (pt * K + c) = weights ! (pt * K + c)" by simp
  qed
  then show ?thesis by (simp only: slot_sum_def)
qed

lemma SetVaryingJointInfluences_ignores:
  assumes j0: "joints \<noteq> []"
    and ok: "getPath_status maya" "skinClusterFn_status maya"
    and nj: "numPoints * length joints < 2 ^ 32"
    and nk: "numPoints * nat k < 2 ^ 32"
    and li: "numPoints * nat k \<le> length indices"
    and lw: "numPoints * nat k \<le> length weights"
    and out: "\<not> (0 \<le> sint (indices ! i) \<and> sint (indices ! i) < int (length joints))"
  shows "SetVaryingJointInfluences maya joints indices (weights[i := w]) k numPoints =
         SetVaryingJointInfluences maya joints indices weights k numPoints"
proof -
  have lw': "numPoints * nat k \<le> length (weights[i := w])" using lw by simp
  from SetVaryingJointInfluences_sum [OF j0 ok nj nk li lw]
  obtain ii vw where a:
    "SetVaryingJointInfluences maya joints indices weights k numPoints =
       Inr (setWeights_status maya ii vw, Some (ii, vw))"
    "ii = map int32 [0..<wrap32 (length joints)]"
    "length vw = numPoints * length joints"
    "\<And>pt j. pt < numPoints \<Longrightarrow> j < length joints \<Longrightarrow>
        vw ! (pt * length joints + j) = slot_sum indices weights (nat k) pt j 0 (Finite 0)"
    by blast
  from SetVaryingJointInfluences_sum [OF j0 ok nj nk li lw']
  obtain ii' vw' where b:
    "SetVaryingJointInfluences maya joints indices (weights[i := w]) k numPoints =
       Inr (setWeights_status maya ii' vw', Some (ii', vw'))"
    "ii' = map int32 [0..<wrap32 (length joints)]"
    "length vw' = numPoints * length joints"
    "\<And>pt j. pt < numPoints \<Longrightarrow> j < length joints \<Longrightarrow>
        vw' ! (pt * length joints + j) =
          slot_sum indices (weights[i := w]) (nat k) pt j 0 (Finite 0)"
    by blast
  have "vw' = vw"
  proof (rule nth_equalityI)
    show "length vw' = length vw" using a(3) b(3) by simp
  next
    fix p
    assume "p < length vw'"
    then have p: "p < numPoints * length joints" using b(3) by simp
    define n where "n = length joints"
    have n: "0 < n" using j0 by (simp add: n_def)
    define pt where "pt = p div n"
    define j where "j = p mod n"
    have j: "j < n" using n by (simp add: j_def)
    have pt: "pt < numPoints" using p n by (simp add: pt_def n_def less_mult_imp_div_less)
    have decomp: "p = pt * n + j" by (simp add: pt_def j_def)
    have "vw' ! (pt * n + j) = slot_sum indices (weights[i := w]) (nat k) pt j 0 (Finite 0)"
      using b(4) [OF pt] j by (simp add: n_def)
    also have "\<dots> = slot_sum indices weights (nat k) pt j 0 (Finite 0)"
      using out j by (intro slot_sum_update) (simp_all add: n_def)
    also have "\<dots> = vw ! (pt * n + j)"
      using a(4) [OF pt] j by (simp add: n_def)
    finally show "vw' ! p = vw ! p" by (simp add: decomp)
  qed
  with a(1,2) b(1,2) show ?thesis by simp
qed


lemma round64_0: "round64 0 = Finite 0"
  by (simp add: round64_def round_to_def)

lemma round64_half: "round64 (1/2) = Finite (1/2)"
  unfolding round64_def
  by (subst round_to_binade [where k = "- 1"]) (simp_all add: rne_def Let_def)

lemma round64_three_quarters: "round64 (3/4) = Finite (3/4)"
  unfolding round64_def
  by (subst round_to_binade [where k = "- 1"]) (simp_all add: rne_def Let_def)

lemma round64_eighth: "round64 (1/8) = Finite (1/8)"
  unfolding round64_def
  by (subst round_to_binade [where k = "- 3"]) (simp_all add: rne_def Let_def)

text \<open>In binary64, \<open>2 ^ 100 + 1\<close> is \<open>2 ^ 100\<close>.\<close>

lemma round64_big: "round64 (2 ^ 100) = Finite (2 ^ 100)"
  unfolding round64_def
  by (subst round_to_binade [where k = 100]) (simp_all add: rne_def Let_def)

lemma round64_big_plus_1: "round64 (2 ^ 100 + 1) = Finite (2 ^ 100)"
  unfolding round64_def
  by (subst round_to_binade [where k = 100]) (simp_all add: rne_def Let_def)

text \<open>
  Claim C4, amended. When the joints list is empty, \<open>_SetVaryingJointInfluences\<close> returns
  true without setting any weights. Otherwise, when Maya's calls before \<open>setWeights\<close>
  succeed, the arrays hold \<open>numPoints * numInfluencesPerPoint\<close> entries, and
  \<open>numPoints * numJoints\<close> and \<open>numPoints * numInfluencesPerPoint\<close> are below \<open>2 ^ 32\<close>,
  then for every \<open>pt < numPoints\<close> and \<open>j < numJoints\<close> the weight passed to \<open>setWeights\<close>
  at position \<open>pt * numJoints + j\<close> is the value accumulated from 0, in slot order and in
  binary64 (each addition rounded), by the weights
  \<open>weights[pt * numInfluencesPerPoint + c]\<close> of the slots \<open>c\<close> with
  \<open>indices[pt * numInfluencesPerPoint + c] = j\<close>; and an entry whose joint index is negative
  or at least \<open>numJoints\<close> contributes nothing: changing its weight changes nothing.
\<close>

theorem SetVaryingJointInfluences_weights:
  "(joints = [] \<longrightarrow>
      SetVaryingJointInfluences maya joints indices weights k numPoints = Inr (True, None)) \<and>
   (joints \<noteq> [] \<and> getPath_status maya \<and> skinClusterFn_status maya \<and>
    numPoints * length joints < 2 ^ 32 \<and> numPoints * nat k < 2 ^ 32 \<and>
    numPoints * nat k \<le> length indices \<and> numPoints * nat k \<le> length weights \<longrightarrow>
      (\<exists>ii vw.
          SetVaryingJointInfluences maya joints indices weights k numPoints =
            Inr (setWeights_status maya ii vw, Some (ii, vw)) \<and>
          length vw = numPoints * length joints \<and>
          (\<forall>pt j. pt < numPoints \<and> j < length joints \<longrightarrow>
             vw ! (pt * length joints + j) =
               foldl (ieee_add round64) (Finite 0)
                 (map (\<lambda>c. weights ! (pt * nat k + c))
                    (filter (\<lambda>c. sint (indices ! (pt * nat k + c)) = int j) [0..<nat k])))) \<and>
      (\<forall>i w. \<not> (0 \<le> sint (indices ! i) \<and> sint (indices ! i) < int (length joints)) \<longrightarrow>
         SetVaryingJointInfluences maya joints indices (weights[i := w]) k numPoints =
         SetVaryingJointInfluences maya joints indices weights k numPoints))"
proof (intro conjI impI)
  assume "joints = []"
  then show "SetVaryingJointInfluences maya joints indices weights k numPoints = Inr (True, None)"
    by (simp add: SetVaryingJointInfluences_def)
next
  assume h: "joints \<noteq> [] \<and> getPath_status maya \<and> skinClusterFn_status maya \<and>
    numPoints * length joints < 2 ^ 32 \<and> numPoints * nat k < 2 ^ 32 \<and>
    numPoints * nat k \<le> length indices \<and> numPoints * nat k \<le> length weights"
  then have j0: "joints \<noteq> []" and ok: "getPath_status maya" "skinClusterFn_status maya"
    and nj: "numPoints * length joints < 2 ^ 32" and nk: "numPoints * nat k < 2 ^ 32"
    and li: "numPoints * nat k \<le> length indices" and lw: "numPoints * nat k \<le> length weights"
    by simp_all
  from SetVaryingJointInfluences_sum [OF j0 ok nj nk li lw]
  show "\<exists>ii vw.
          SetVaryingJointInfluences maya joints indices weights k numPoints =
            Inr (setWeights_status maya ii vw, Some (ii, vw)) \<and>
          length vw = numPoints * length joints \<and>
          (\<forall>pt j. pt < numPoints \<and> j < length joints \<longrightarrow>
             vw ! (pt * length joints + j) =
               foldl (ieee_add round64) (Finite 0)
                 (map (\<lambda>c. weights ! (pt * nat k + c))
                    (filter (\<lambda>c. sint (indices ! (pt * nat k + c)) = int j) [0..<nat k])))"
    unfolding slot_sum_def by blast
  show "\<forall>i w. \<not> (0 \<le> sint (indices ! i) \<and> sint (indices ! i) < int (length joints)) \<longrightarrow>
         SetVaryingJointInfluences maya joints indices (weights[i := w]) k numPoints =
         SetVaryingJointInfluences maya joints indices weights k numPoints"
    using SetVaryingJointInfluences_ignores [OF j0 ok nj nk li lw] by blast
qed

theorem SetVaryingJointInfluences_weights_witness:
  "SetVaryingJointInfluences maya_ok ([] :: string list) [0, 0, 1, 5]
     [Finite (1/2), Finite (1/4), Finite (1/8), Finite (3/4)] 2 2 = Inr (True, None) \<and>
   (\<exists>ii vw.
      SetVaryingJointInfluences maya_ok [''a'', ''b''] [0, 0, 1, 5]
        [Finite (1/2), Finite (1/4), Finite (1/8), Finite (3/4)] 2 2 =
        Inr (True, Some (ii, vw)) \<and>
      length vw = 4 \<and> vw ! 0 = Finite (3/4) \<and> vw ! 3 = Finite (1/8)) \<and>
   SetVaryingJointInfluences maya_ok [''a'', ''b''] [0, 0, 1, 5]
     ([Finite (1/2), Finite (1/4), Finite (1/8), Finite (3/4)][3 := Finite 9]) 2 2 =
   SetVaryingJointInfluences maya_ok [''a'', ''b''] [0, 0, 1, 5]
     [Finite (1/2), Finite (1/4), Finite (1/8), Finite (3/4)] 2 2"
proof -
  let ?joints = "[''a'', ''b'']" and ?indices = "[0, 0, 1, 5] :: 32 word list"
  let ?weights = "[Finite (1/2), Finite (1/4), Finite (1/8), Finite (3/4)]"
  have empty: "SetVaryingJointInfluences maya_ok ([] :: string list) ?indices ?weights 2 2 =
      Inr (True, None)"
    using SetVaryingJointInfluences_weights [of "[] :: string list" maya_ok ?indices ?weights 2 2]
    by simp
  have h: "?joints \<noteq> [] \<and> getPath_status maya_ok \<and> skinClusterFn_status maya_ok \<and>
    2 * length ?joints < 2 ^ 32 \<and> 2 * nat 2 < (2 ^ 32 :: nat) \<and>
    2 * nat 2 \<le> length ?indices \<and> 2 * nat 2 \<le> length ?weights"
    by (simp add: maya_ok_def)
  from SetVaryingJointInfluences_weights [of ?joints maya_ok ?indices ?weights 2 2] h
  obtain ii vw where r:
    "SetVaryingJointInfluences maya_ok ?joints ?indices ?weights 2 2 =
       Inr (setWeights_status maya_ok ii vw, Some (ii, vw))"
    "length vw = 2 * length ?joints"
    "\<forall>pt j. pt < 2 \<and> j < length ?joints \<longrightarrow>
       vw ! (pt * length ?joints + j) =
         foldl (ieee_add round64) (Finite 0)
           (map (\<lambda>c. ?weights ! (pt * nat 2 + c))
              (filter (\<lambda>c. sint (?indices ! (pt * nat 2 + c)) = int j) [0..<nat 2]))"
    and ign: "\<forall>i w. \<not> (0 \<le> sint (?indices ! i) \<and> sint (?indices ! i) < int (length ?joints)) \<longrightarrow>
       SetVaryingJointInfluences maya_ok ?joints ?indices (?weights[i := w]) 2 2 =
       SetVaryingJointInfluences maya_ok ?joints ?indices ?weights 2 2"
    by blast
  have two: "[0..<2] = [0, Suc 0]" by (simp add: numeral_2_eq_2)
  have "vw ! 0 = Finite (3/4)"
    using r(3) [rule_format, of 0 0] round64_half round64_three_quarters by (simp add: two)
  moreover have "vw ! 3 = Finite (1/8)"
    using r(3) [rule_format, of 1 1] round64_eighth by (simp add: two numeral_3_eq_3)
  ultimately have sums: "\<exists>ii vw.
      SetVaryingJointInfluences maya_ok ?joints ?indices ?weights 2 2 =
        Inr (True, Some (ii, vw)) \<and>
      length vw = 4 \<and> vw ! 0 = Finite (3/4) \<and> vw ! 3 = Finite (1/8)"
    using r(1,2) by (simp add: maya_ok_def)
  have "\<not> (0 \<le> sint (?indices ! 3) \<and> sint (?indices ! 3) < int (length ?joints))"
    by (simp add: numeral_3_eq_3)
  with ign have "SetVaryingJointInfluences maya_ok ?joints ?indices (?weights[3 := Finite 9]) 2 2 =
       SetVaryingJointInfluences maya_ok ?joints ?indices ?weights 2 2"
    by blast
  with empty sums show ?thesis by blast
qed

text \<open>
  Claim C4 as stated fails in two ways. For one point with the three weights \<open>2 ^ 100\<close>, 1
  and \<open>- 2 ^ 100\<close> on one joint, the weight set is 0, where the sum of the three is 1: the
  sum is accumulated in binary64. For \<open>2 ^ 31\<close> points and two joints the size
  \<open>numPoints * numJoints\<close> of the weight array wraps to 0 in \<^verbatim>\<open>unsigned int\<close>, and the first
  weight is written outside the array.
\<close>

theorem SetVaryingJointInfluences_counterexample:
  "SetVaryingJointInfluences maya_ok [''a''] [0, 0, 0]
     [Finite (2 ^ 100), Finite 1, Finite (- (2 ^ 100))] 3 1 =
     Inr (True, Some ([0], [Finite 0])) \<and>
   (2 ^ 100 + 1 + - (2 ^ 100) :: real) = 1 \<and>
   SetVaryingJointInfluences maya_ok [''a'', ''b''] (replicate (2 ^ 31) 0)
     (replicate (2 ^ 31) (Finite 1)) 1 (2 ^ 31) = Inl OutOfRange"
proof -
  have a: "SetVaryingJointInfluences maya_ok [''a''] [0, 0, 0]
     [Finite (2 ^ 100), Finite 1, Finite (- (2 ^ 100))] 3 1 =
     Inr (True, Some ([0], [Finite 0]))"
    using round64_big round64_big_plus_1 round64_0
    by (simp add: SetVaryingJointInfluences_def weights_of_points.simps
        influences_of_point.simps array_read_def wrap32_def uint32_def int32_def maya_ok_def
        Let_def)
  have b: "SetVaryingJointInfluences maya_ok [''a'', ''b''] (replicate (2 ^ 31) 0)
     (replicate (2 ^ 31) (Finite 1)) 1 (2 ^ 31) = Inl OutOfRange"
    by (simp add: SetVaryingJointInfluences_def weights_of_points.simps
        influences_of_point.simps array_read_def wrap32_def uint32_def maya_ok_def Let_def)
  from a b show ?thesis by simp
qed

section \<open>Joint radii and the guards of the skin cluster\<close>

text \<open>
  Claim C7. The claim says that the radius set on a joint is 0.1 times the average length of
  the bones to its children. The first loop assigns \<open>radii[parent] = radius\<close> instead of
  adding to it, so the second loop divides the last child's value by the number of children.
  On the skeleton \<open>fork_skel\<close>, whose root has children at distance 1 and 2, the root
  receives \<open>0.1 * 2 / 2 = 1/10\<close>, where 0.1 times the average length is \<open>3/20\<close>.
\<close>

theorem SetJointRadii_last_child_only:
  "SetJointRadii radii_maya_ok gf_euclid fork_skel [Some 10, Some 11, Some 12]
       [(0, 0, 0), (1, 0, 0), (2, 0, 0)] =
     Inr (True, [(0, 1/10), (1, 1/10), (2, 1/10)]) \<and>
   0.1 * ((GetLength gf_euclid (vec_minus gf_euclid (1, 0, 0) (0, 0, 0)) +
           GetLength gf_euclid (vec_minus gf_euclid (2, 0, 0) (0, 0, 0))) / 2) = 3/20"
  by (simp add: SetJointRadii_def child_bone_radii.simps resolve_radii.simps array_read_def
      gf_euclid_def fork_skel_def radii_maya_ok_def Let_def)

text \<open>
  Claim C8. The claim says that \<open>CreateSkinCluster\<close> returns false when the skinning query
  is invalid. The function posts the coding error for an invalid skinning query and goes on:
  with a valid skeleton query, a valid prim and no Maya node registered for the prim's path
  it returns true.
\<close>

theorem CreateSkinCluster_invalid_skinningQuery:
  "CreateSkinCluster maya True False True None rig = (True, [SkinningQueryInvalid], [])"
  by (simp add: CreateSkinCluster_def)

section \<open>Properties of the joint nodes\<close>




























section \<open>Properties of the bind pose\<close>



lemma bindPose_joint_calls_no_node:
  "\<forall>c\<in>set (bindPose_joint_calls bp n gp j k). \<not> node_created c"
  by (simp add: bindPose_joint_calls_def Let_def)









text \<open>What one turn of the loop wires.\<close>

lemma sources_of_append [simp]:
  "sources_of (xs @ ys) d = sources_of xs d @ sources_of ys d"
  by (simp add: sources_of_def)

lemma matrices_of_append [simp]:
  "matrices_of (xs @ ys) d = matrices_of xs d @ matrices_of ys d"
  by (simp add: matrices_of_def)




















end
